theory Spec2Isabelle
  imports Complex_Main
begin

section \<open>Geometry utilities (utils/geometry.js)\<close>

text \<open>
  A finite JavaScript number is modelled as a real number, and arithmetic on finite
  numbers as the exact operation on \<open>real\<close>, without rounding or overflow. Where the
  source divides by a quantity that can be zero, the infinities and NaN of JavaScript are
  modelled too (type \<open>jsnum\<close>, with \<open>fitToContent\<close>), or the zero is excluded by a
  hypothesis that says so. A point is the object \<open>{ x, y }\<close>.
\<close>

record point =
  px :: real
  py :: real

text \<open>
  The two \<open>throw new Error(...)\<close> of the module: "a polygon needs at least 3 vertices"
  in \<open>calculatePolygonCenter\<close>, "the vertex array must not be empty" in
  \<open>calculateGeometricCenter\<close>.
\<close>

datatype error = PolygonNeedsThreeVertices | VertexArrayEmpty

text \<open>The body of the shoelace loop at index \<open>i\<close>, on the accumulators
  \<open>(area, centerX, centerY)\<close>.\<close>

definition shoelace_body :: "point list \<Rightarrow> nat \<Rightarrow> real \<times> real \<times> real \<Rightarrow> real \<times> real \<times> real" where
  "shoelace_body points i acc =
     (case acc of (area, centerX, centerY) \<Rightarrow>
        let j = (i + 1) mod length points;
            cross = px (points ! i) * py (points ! j) - px (points ! j) * py (points ! i)
        in (area + cross,
            centerX + (px (points ! i) + px (points ! j)) * cross,
            centerY + (py (points ! i) + py (points ! j)) * cross))"

text \<open>\<open>for (let i = 0; i < points.length; i++) { ... }\<close>\<close>

function shoelace_loop :: "point list \<Rightarrow> nat \<Rightarrow> real \<times> real \<times> real \<Rightarrow> real \<times> real \<times> real" where
  "shoelace_loop points i acc =
     (if i < length points then shoelace_loop points (Suc i) (shoelace_body points i acc)
      else acc)"
  by pat_completeness auto
termination
  by (relation "measure (\<lambda>(points, i, acc). length points - i)") auto

declare shoelace_loop.simps [simp del]

text \<open>\<open>points.reduce((sum, p) => sum + p.x, 0)\<close> and the same for \<open>y\<close>.\<close>

definition reduce_x :: "point list \<Rightarrow> real" where
  "reduce_x points = foldl (\<lambda>sum p. sum + px p) 0 points"

definition reduce_y :: "point list \<Rightarrow> real" where
  "reduce_y points = foldl (\<lambda>sum p. sum + py p) 0 points"

definition calculatePolygonCenter :: "point list \<Rightarrow> error + point" where
  "calculatePolygonCenter points =
     (if length points < 3 then Inl PolygonNeedsThreeVertices
      else
        case shoelace_loop points 0 (0, 0, 0) of (area0, centerX, centerY) \<Rightarrow>
          let area = area0 / 2 in
          if \<bar>area\<bar> < 1 / 10 ^ 10
          then Inr \<lparr>px = reduce_x points / real (length points),
                    py = reduce_y points / real (length points)\<rparr>
          else Inr \<lparr>px = centerX / (6 * area), py = centerY / (6 * area)\<rparr>)"

text \<open>The loop of \<open>calculateGeometricCenter\<close>, on the accumulators \<open>(sumX, sumY)\<close>.\<close>

function sum_loop :: "point list \<Rightarrow> nat \<Rightarrow> real \<times> real \<Rightarrow> real \<times> real" where
  "sum_loop points i acc =
     (if i < length points
      then sum_loop points (Suc i) (fst acc + px (points ! i), snd acc + py (points ! i))
      else acc)"
  by pat_completeness auto
termination
  by (relation "measure (\<lambda>(points, i, acc). length points - i)") auto

declare sum_loop.simps [simp del]

definition calculateGeometricCenter :: "point list \<Rightarrow> error + point" where
  "calculateGeometricCenter points =
     (if length points = 0 then Inl VertexArrayEmpty
      else
        case sum_loop points 0 (0, 0) of (sumX, sumY) \<Rightarrow>
          Inr \<lparr>px = sumX / real (length points), py = sumY / real (length points)\<rparr>)"

text \<open>\<open>GRAPHICS_CONFIG.DEFAULT_POLYGON_POINTS\<close> (utils/constants.js).\<close>

definition DEFAULT_POLYGON_POINTS :: "point list" where
  "DEFAULT_POLYGON_POINTS =
     [\<lparr>px = 50, py = 10\<rparr>, \<lparr>px = 90, py = 30\<rparr>, \<lparr>px = 80, py = 70\<rparr>,
      \<lparr>px = 40, py = 90\<rparr>, \<lparr>px = 10, py = 60\<rparr>, \<lparr>px = 20, py = 20\<rparr>]"


text \<open>\<open>GRAPHICS_CONFIG.FACTORY_POINTS\<close> (utils/constants.js).\<close>

definition FACTORY_POINTS :: "point list" where
  "FACTORY_POINTS =
     [\<lparr>px = 50, py = 50\<rparr>, \<lparr>px = 150, py = 50\<rparr>, \<lparr>px = 150, py = 100\<rparr>,
      \<lparr>px = 120, py = 100\<rparr>, \<lparr>px = 120, py = 150\<rparr>, \<lparr>px = 180, py = 150\<rparr>,
      \<lparr>px = 180, py = 170\<rparr>, \<lparr>px = 50, py = 170\<rparr>, \<lparr>px = 50, py = 150\<rparr>,
      \<lparr>px = 20, py = 150\<rparr>, \<lparr>px = 20, py = 100\<rparr>, \<lparr>px = 10, py = 100\<rparr>,
      \<lparr>px = 10, py = 30\<rparr>, \<lparr>px = 60, py = 30\<rparr>, \<lparr>px = 60, py = 50\<rparr>,
      \<lparr>px = 165, py = 20\<rparr>, \<lparr>px = 185, py = 20\<rparr>, \<lparr>px = 185, py = 70\<rparr>,
      \<lparr>px = 165, py = 70\<rparr>]"

definition SCALE_FACTOR :: real where
  "SCALE_FACTOR = 15 / 10"

definition CONTAINER_SCALE_RATIO :: real where
  "CONTAINER_SCALE_RATIO = 9 / 10"

subsection \<open>The shoelace sums, as the specification words them\<close>

text \<open>
  The signed area and the first moments of a closed polygon, written as sums over the
  consecutive vertex pairs (with the wrap-around from the last vertex to the first).
  These follow the specification; the loop above is compared with them.
\<close>

definition spec_cross :: "point list \<Rightarrow> nat \<Rightarrow> real" where
  "spec_cross points i =
     px (points ! i) * py (points ! ((i + 1) mod length points))
     - px (points ! ((i + 1) mod length points)) * py (points ! i)"

definition spec_signed_area :: "point list \<Rightarrow> real" where
  "spec_signed_area points = (\<Sum>i = 0..<length points. spec_cross points i) / 2"

definition spec_moment_x :: "point list \<Rightarrow> real" where
  "spec_moment_x points =
     (\<Sum>i = 0..<length points.
        (px (points ! i) + px (points ! ((i + 1) mod length points))) * spec_cross points i)"

definition spec_moment_y :: "point list \<Rightarrow> real" where
  "spec_moment_y points =
     (\<Sum>i = 0..<length points.
        (py (points ! i) + py (points ! ((i + 1) mod length points))) * spec_cross points i)"

section \<open>Viewport controller (controls/ViewportController.js)\<close>

text \<open>\<open>VIEWPORT_CONFIG\<close> (utils/constants.js).\<close>

definition MIN_SCALE :: real where
  "MIN_SCALE = 1 / 10"

definition MAX_SCALE :: real where
  "MAX_SCALE = 5"

definition DEFAULT_SCALE :: real where
  "DEFAULT_SCALE = 1"

definition ZOOM_IN_FACTOR :: real where
  "ZOOM_IN_FACTOR = 12 / 10"

definition ZOOM_OUT_FACTOR :: real where
  "ZOOM_OUT_FACTOR = 8 / 10"

definition WHEEL_ZOOM_IN_FACTOR :: real where
  "WHEEL_ZOOM_IN_FACTOR = 11 / 10"

definition WHEEL_ZOOM_OUT_FACTOR :: real where
  "WHEEL_ZOOM_OUT_FACTOR = 9 / 10"

text \<open>
  The \<open>viewport\<close> field of the application state, \<open>{ x, y, scale }\<close>, and the partial
  object a caller passes to \<open>stateManager.updateViewport\<close>; a field that is absent from
  the partial object is \<open>None\<close>.
\<close>

record viewport =
  vp_x :: real
  vp_y :: real
  vp_scale :: real

record viewport_patch =
  patch_x :: "real option"
  patch_y :: "real option"
  patch_scale :: "real option"

text \<open>The scene root of the rendering library: \<open>app.stage.position\<close> and
  \<open>app.stage.scale\<close>.\<close>

record stage =
  stage_x :: real
  stage_y :: real
  stage_scale :: real

text \<open>What the controller reads and writes: the viewport held by the state manager,
  and the stage. \<open>event.preventDefault()\<close>, \<open>app.render()\<close> and the console output
  touch neither and are left out.\<close>

record vc_state =
  st_viewport :: viewport
  st_stage :: stage

text \<open>The canvas: its pixel size, and the rectangle \<open>getBoundingClientRect()\<close>
  returns.\<close>

record canvas =
  canvas_width :: real
  canvas_height :: real
  rect_left :: real
  rect_top :: real
  rect_width :: real
  rect_height :: real

record wheel_event =
  ev_clientX :: real
  ev_clientY :: real
  ev_deltaY :: real

record bounds =
  bounds_x :: real
  bounds_y :: real
  bounds_width :: real
  bounds_height :: real

text \<open>\<open>StateManager.updateViewport(viewport)\<close>: the spread
  \<open>{ ...this.state.viewport, ...viewport }\<close>.\<close>

definition StateManager_updateViewport :: "viewport_patch \<Rightarrow> vc_state \<Rightarrow> vc_state" where
  "StateManager_updateViewport patch st =
     st\<lparr>st_viewport :=
          \<lparr>vp_x = (case patch_x patch of Some v \<Rightarrow> v | None \<Rightarrow> vp_x (st_viewport st)),
           vp_y = (case patch_y patch of Some v \<Rightarrow> v | None \<Rightarrow> vp_y (st_viewport st)),
           vp_scale = (case patch_scale patch of Some v \<Rightarrow> v
                       | None \<Rightarrow> vp_scale (st_viewport st))\<rparr>\<rparr>"

text \<open>\<open>ViewportController.updateViewport()\<close>: copies the viewport to the stage.\<close>

definition updateViewport :: "vc_state \<Rightarrow> vc_state" where
  "updateViewport st =
     st\<lparr>st_stage := \<lparr>stage_x = vp_x (st_viewport st), stage_y = vp_y (st_viewport st),
                       stage_scale = vp_scale (st_viewport st)\<rparr>\<rparr>"

text \<open>The pointer position in canvas pixels, as \<open>handleWheel\<close> computes it.\<close>

definition wheel_mouse :: "canvas \<Rightarrow> wheel_event \<Rightarrow> point" where
  "wheel_mouse cv ev =
     (let scaleX = canvas_width cv / rect_width cv;
          scaleY = canvas_height cv / rect_height cv
      in \<lparr>px = (ev_clientX ev - rect_left cv) * scaleX,
          py = (ev_clientY ev - rect_top cv) * scaleY\<rparr>)"

definition handleWheel :: "canvas \<Rightarrow> wheel_event \<Rightarrow> vc_state \<Rightarrow> vc_state" where
  "handleWheel cv ev st =
     (let viewport = st_viewport st;
          mouseX = px (wheel_mouse cv ev);
          mouseY = py (wheel_mouse cv ev);
          scaleFactor = (if ev_deltaY ev > 0 then WHEEL_ZOOM_OUT_FACTOR
                         else WHEEL_ZOOM_IN_FACTOR);
          newScale = max MIN_SCALE (min MAX_SCALE (vp_scale viewport * scaleFactor))
      in if newScale = vp_scale viewport then st
         else
           let worldX = (mouseX - vp_x viewport) / vp_scale viewport;
               worldY = (mouseY - vp_y viewport) / vp_scale viewport;
               newViewport = \<lparr>patch_x = Some (mouseX - worldX * newScale),
                              patch_y = Some (mouseY - worldY * newScale),
                              patch_scale = Some newScale\<rparr>
           in updateViewport (StateManager_updateViewport newViewport st))"

definition zoomIn :: "canvas \<Rightarrow> vc_state \<Rightarrow> vc_state" where
  "zoomIn cv st =
     (let viewport = st_viewport st;
          centerX = canvas_width cv / 2;
          centerY = canvas_height cv / 2;
          scaleFactor = ZOOM_IN_FACTOR;
          newScale = min MAX_SCALE (vp_scale viewport * scaleFactor)
      in if newScale = vp_scale viewport then st
         else
           let worldX = (centerX - vp_x viewport) / vp_scale viewport;
               worldY = (centerY - vp_y viewport) / vp_scale viewport;
               newViewport = \<lparr>patch_x = Some (centerX - worldX * newScale),
                              patch_y = Some (centerY - worldY * newScale),
                              patch_scale = Some newScale\<rparr>
           in updateViewport (StateManager_updateViewport newViewport st))"

definition zoomOut :: "canvas \<Rightarrow> vc_state \<Rightarrow> vc_state" where
  "zoomOut cv st =
     (let viewport = st_viewport st;
          centerX = canvas_width cv / 2;
          centerY = canvas_height cv / 2;
          scaleFactor = ZOOM_OUT_FACTOR;
          newScale = max MIN_SCALE (vp_scale viewport * scaleFactor)
      in if newScale = vp_scale viewport then st
         else
           let worldX = (centerX - vp_x viewport) / vp_scale viewport;
               worldY = (centerY - vp_y viewport) / vp_scale viewport;
               newViewport = \<lparr>patch_x = Some (centerX - worldX * newScale),
                              patch_y = Some (centerY - worldY * newScale),
                              patch_scale = Some newScale\<rparr>
           in updateViewport (StateManager_updateViewport newViewport st))"

definition reset :: "vc_state \<Rightarrow> vc_state" where
  "reset st =
     updateViewport
       (StateManager_updateViewport
          \<lparr>patch_x = Some 0, patch_y = Some 0, patch_scale = Some DEFAULT_SCALE\<rparr> st)"

definition pan :: "real \<Rightarrow> real \<Rightarrow> vc_state \<Rightarrow> vc_state" where
  "pan deltaX deltaY st =
     (let viewport = st_viewport st;
          newViewport = \<lparr>patch_x = Some (vp_x viewport + deltaX),
                         patch_y = Some (vp_y viewport + deltaY),
                         patch_scale = None\<rparr>
      in updateViewport (StateManager_updateViewport newViewport st))"

text \<open>\<open>zoomTo(scale, center = null)\<close>: a missing centre is the middle of the canvas.\<close>

definition zoomTo :: "canvas \<Rightarrow> real \<Rightarrow> point option \<Rightarrow> vc_state \<Rightarrow> vc_state" where
  "zoomTo cv scale center st =
     (let targetScale = max MIN_SCALE (min MAX_SCALE scale);
          centerX = (case center of Some c \<Rightarrow> px c | None \<Rightarrow> canvas_width cv / 2);
          centerY = (case center of Some c \<Rightarrow> py c | None \<Rightarrow> canvas_height cv / 2);
          viewport = st_viewport st;
          worldX = (centerX - vp_x viewport) / vp_scale viewport;
          worldY = (centerY - vp_y viewport) / vp_scale viewport;
          newViewport = \<lparr>patch_x = Some (centerX - worldX * targetScale),
                         patch_y = Some (centerY - worldY * targetScale),
                         patch_scale = Some targetScale\<rparr>
      in updateViewport (StateManager_updateViewport newViewport st))"

subsection \<open>Numbers that need not be finite\<close>

text \<open>
  A JavaScript number: a finite number, \<open>Infinity\<close>, \<open>-Infinity\<close> or \<open>NaN\<close>. The
  operations below are those \<open>fitToContent\<close> applies to a value that need not be finite.
  The operands written as \<open>real\<close> are finite, and a zero among them is the positive
  zero.
\<close>

datatype jsnum = Num real | PosInfinity | NegInfinity | NaN

text \<open>\<open>a / b\<close> on finite operands: \<open>0 / 0\<close> is \<open>NaN\<close>, another number over zero is
  an infinity of its sign.\<close>

definition js_div :: "real \<Rightarrow> real \<Rightarrow> jsnum" where
  "js_div a b =
     (if b \<noteq> 0 then Num (a / b)
      else if a = 0 then NaN
      else if 0 < a then PosInfinity
      else NegInfinity)"

text \<open>\<open>a * b\<close> with \<open>a\<close> finite: zero times an infinity is \<open>NaN\<close>.\<close>

fun js_times :: "real \<Rightarrow> jsnum \<Rightarrow> jsnum" where
  "js_times a (Num b) = Num (a * b)"
| "js_times a PosInfinity = (if a = 0 then NaN else if 0 < a then PosInfinity else NegInfinity)"
| "js_times a NegInfinity = (if a = 0 then NaN else if 0 < a then NegInfinity else PosInfinity)"
| "js_times a NaN = NaN"

text \<open>\<open>a - b\<close> with \<open>a\<close> finite.\<close>

fun js_minus :: "real \<Rightarrow> jsnum \<Rightarrow> jsnum" where
  "js_minus a (Num b) = Num (a - b)"
| "js_minus a PosInfinity = NegInfinity"
| "js_minus a NegInfinity = PosInfinity"
| "js_minus a NaN = NaN"

text \<open>\<open>Math.min(a, b)\<close> and \<open>Math.max(a, b)\<close>: \<open>NaN\<close> when an argument is \<open>NaN\<close>.\<close>

fun js_min :: "jsnum \<Rightarrow> jsnum \<Rightarrow> jsnum" where
  "js_min NaN b = NaN"
| "js_min a NaN = NaN"
| "js_min NegInfinity b = NegInfinity"
| "js_min a NegInfinity = NegInfinity"
| "js_min PosInfinity b = b"
| "js_min a PosInfinity = a"
| "js_min (Num a) (Num b) = Num (min a b)"

fun js_max :: "jsnum \<Rightarrow> jsnum \<Rightarrow> jsnum" where
  "js_max NaN b = NaN"
| "js_max a NaN = NaN"
| "js_max PosInfinity b = PosInfinity"
| "js_max a PosInfinity = PosInfinity"
| "js_max NegInfinity b = b"
| "js_max a NegInfinity = a"
| "js_max (Num a) (Num b) = Num (max a b)"

text \<open>A viewport object whose fields need not be finite.\<close>

record js_viewport =
  jvp_x :: jsnum
  jvp_y :: jsnum
  jvp_scale :: jsnum

text \<open>
  What an operation leaves behind: a state of finite numbers, or a viewport with a
  field that is not a finite number, which \<open>vc_state\<close> cannot hold.
\<close>

datatype outcome = Stored vc_state | StoredNonFinite js_viewport

text \<open>\<open>this.stateManager.updateViewport(newViewport); this.updateViewport()\<close> with a
  viewport object that sets all three fields.\<close>

definition store_viewport :: "js_viewport \<Rightarrow> vc_state \<Rightarrow> outcome" where
  "store_viewport v st =
     (case (jvp_x v, jvp_y v, jvp_scale v) of
        (Num x, Num y, Num s) \<Rightarrow>
          Stored (updateViewport
                    (StateManager_updateViewport
                       \<lparr>patch_x = Some x, patch_y = Some y, patch_scale = Some s\<rparr> st))
      | _ \<Rightarrow> StoredNonFinite v)"

text \<open>\<open>fitToContent(bounds, padding = 0.1)\<close>: returns at once when \<open>bounds\<close> is
  missing. The two divisions are by the width and the height of \<open>bounds\<close>, which the
  source does not test. The offset is computed from the unclamped \<open>scale\<close>, as in the
  source.\<close>

definition fitToContent :: "canvas \<Rightarrow> bounds option \<Rightarrow> real \<Rightarrow> vc_state \<Rightarrow> outcome" where
  "fitToContent cv bounds_opt padding st =
     (case bounds_opt of
        None \<Rightarrow> Stored st
      | Some b \<Rightarrow>
          let canvasWidth = canvas_width cv;
              canvasHeight = canvas_height cv;
              scaleX = js_div (canvasWidth * (1 - padding * 2)) (bounds_width b);
              scaleY = js_div (canvasHeight * (1 - padding * 2)) (bounds_height b);
              scale = js_min scaleX scaleY;
              centerX = canvasWidth / 2;
              centerY = canvasHeight / 2;
              contentCenterX = bounds_x b + bounds_width b / 2;
              contentCenterY = bounds_y b + bounds_height b / 2;
              newViewport = \<lparr>jvp_x = js_minus centerX (js_times contentCenterX scale),
                             jvp_y = js_minus centerY (js_times contentCenterY scale),
                             jvp_scale = js_max (Num MIN_SCALE) (js_min (Num MAX_SCALE) scale)\<rparr>
          in store_viewport newViewport st)"

subsection \<open>Notions used to state the viewport properties\<close>

text \<open>The world coordinate a screen point maps to under a viewport:
  \<open>world = (screen - offset) / scale\<close>.\<close>

definition screen_to_world :: "viewport \<Rightarrow> point \<Rightarrow> point" where
  "screen_to_world v p =
     \<lparr>px = (px p - vp_x v) / vp_scale v, py = (py p - vp_y v) / vp_scale v\<rparr>"

definition scale_in_range :: "vc_state \<Rightarrow> bool" where
  "scale_in_range st \<longleftrightarrow>
     MIN_SCALE \<le> vp_scale (st_viewport st) \<and> vp_scale (st_viewport st) \<le> MAX_SCALE"

text \<open>The same of a scale that need not be finite, and of what an operation leaves
  behind.\<close>

fun js_scale_in_range :: "jsnum \<Rightarrow> bool" where
  "js_scale_in_range (Num s) \<longleftrightarrow> MIN_SCALE \<le> s \<and> s \<le> MAX_SCALE"
| "js_scale_in_range PosInfinity \<longleftrightarrow> False"
| "js_scale_in_range NegInfinity \<longleftrightarrow> False"
| "js_scale_in_range NaN \<longleftrightarrow> False"

fun outcome_scale_in_range :: "outcome \<Rightarrow> bool" where
  "outcome_scale_in_range (Stored st) \<longleftrightarrow> scale_in_range st"
| "outcome_scale_in_range (StoredNonFinite v) \<longleftrightarrow> js_scale_in_range (jvp_scale v)"

text \<open>The operations of the controller as values.\<close>

datatype viewport_op =
    Wheel wheel_event
  | ZoomIn
  | ZoomOut
  | ZoomTo real "point option"
  | FitToContent "bounds option" real
  | Pan real real
  | Reset

text \<open>
  The divisions of the source by a quantity a caller supplies: \<open>handleWheel\<close> divides by
  the size of the canvas rectangle, \<open>fitToContent\<close> by the size of the content bounds.
  In JavaScript a zero there yields an infinity or NaN, which a real number does not
  model; an operation is \<open>finite_op\<close> when no such division occurs.
\<close>

fun finite_op :: "canvas \<Rightarrow> viewport_op \<Rightarrow> bool" where
  "finite_op cv (Wheel ev) \<longleftrightarrow> rect_width cv \<noteq> 0 \<and> rect_height cv \<noteq> 0"
| "finite_op cv (FitToContent (Some b) padding) \<longleftrightarrow> bounds_width b \<noteq> 0 \<and> bounds_height b \<noteq> 0"
| "finite_op cv _ \<longleftrightarrow> True"


section \<open>State manager (core/StateManager.js)\<close>

text \<open>
  The application state is a JavaScript object: a finite map from field names to values
  of some type \<open>'v\<close>. The spread \<open>{ ...a, ...b }\<close> is \<open>a ++ b\<close>.
\<close>

type_synonym 'v js_object = "string \<rightharpoonup> 'v"

text \<open>How a statement completes: normally, or by throwing a value of type \<open>'e\<close>.\<close>

datatype 'e completion = Normal | Throw 'e

text \<open>
  A subscriber callback. \<open>cb_id\<close> is the identity of the function object. \<open>cb_body\<close>
  is what a call with \<open>(newState, oldState)\<close> does: the calls it makes into the state
  manager, in order, and then \<open>None\<close> when it returns or \<open>Some e\<close> when it throws \<open>e\<close>.
  A callback can call the closure that \<open>subscribe\<close> returned for a callback (its own or
  another), and it can subscribe a callback. A callback that calls \<open>setState\<close> while it is
  notified is not modelled: the specification leaves re-entrant updates open.
\<close>

datatype 'c action = CallUnsubscribe nat | CallSubscribe 'c

datatype ('v, 'e) callback =
  Callback (cb_id: nat)
           (cb_body: "'v js_object \<Rightarrow> 'v js_object \<Rightarrow> ('v, 'e) callback action list \<times> 'e option")

text \<open>What is observable outside the state manager: the calls made to callbacks, in
  order, each with its arguments, and the lines written by \<open>console.error\<close>.\<close>

record ('v, 'e) effects =
  calls :: "(nat \<times> 'v js_object \<times> 'v js_object) list"
  console_errors :: "'e list"

record ('v, 'e) StateManager =
  state :: "'v js_object"
  subscribers :: "('v, 'e) callback list"

text \<open>\<open>this.subscribers.indexOf(callback)\<close>: the first index that holds the function
  object, \<open>None\<close> for \<open>-1\<close>.\<close>

fun indexOf :: "('v, 'e) callback list \<Rightarrow> nat \<Rightarrow> nat option" where
  "indexOf [] ident = None"
| "indexOf (c # cs) ident =
     (if cb_id c = ident then Some 0 else map_option Suc (indexOf cs ident))"

text \<open>\<open>array.splice(index, 1)\<close>\<close>

definition splice1 :: "'a list \<Rightarrow> nat \<Rightarrow> 'a list" where
  "splice1 array index = take index array @ drop (Suc index) array"

text \<open>The closure \<open>subscribe(callback)\<close> returns, for the callback of identity
  \<open>ident\<close>: it removes the first occurrence of the callback, if there is one.\<close>

definition unsubscribe :: "nat \<Rightarrow> ('v, 'e) StateManager \<Rightarrow> ('v, 'e) StateManager" where
  "unsubscribe ident sm =
     (case indexOf (subscribers sm) ident of
        Some index \<Rightarrow> sm\<lparr>subscribers := splice1 (subscribers sm) index\<rparr>
      | None \<Rightarrow> sm)"

text \<open>\<open>subscribe(callback)\<close> pushes the callback at the end of the array and returns the
  closure that unsubscribes it.\<close>

definition subscribe ::
  "('v, 'e) StateManager \<Rightarrow> ('v, 'e) callback
     \<Rightarrow> ('v, 'e) StateManager \<times> (('v, 'e) StateManager \<Rightarrow> ('v, 'e) StateManager)" where
  "subscribe sm callback =
     (sm\<lparr>subscribers := subscribers sm @ [callback]\<rparr>, unsubscribe (cb_id callback))"

fun perform :: "('v, 'e) callback action \<Rightarrow> ('v, 'e) StateManager \<Rightarrow> ('v, 'e) StateManager" where
  "perform (CallUnsubscribe ident) sm = unsubscribe ident sm"
| "perform (CallSubscribe callback) sm = fst (subscribe sm callback)"

text \<open>
  \<open>callback(newState, oldState)\<close>: the call is made, the callback makes its calls into
  the state manager, then it returns or throws. The state manager is part of what a
  statement changes, next to the effects.
\<close>

definition call_callback ::
  "('v, 'e) callback \<Rightarrow> 'v js_object \<Rightarrow> 'v js_object
     \<Rightarrow> ('v, 'e) StateManager \<times> ('v, 'e) effects
     \<Rightarrow> 'e completion \<times> ('v, 'e) StateManager \<times> ('v, 'e) effects" where
  "call_callback cb newState oldState w =
     (let sm = fst w;
          fx = snd w;
          fx' = fx\<lparr>calls := calls fx @ [(cb_id cb, newState, oldState)]\<rparr>;
          sm' = foldl (\<lambda>m a. perform a m) sm (fst (cb_body cb newState oldState))
      in (case snd (cb_body cb newState oldState) of
            None \<Rightarrow> (Normal, sm', fx')
          | Some e \<Rightarrow> (Throw e, sm', fx')))"

definition console_error ::
  "'e \<Rightarrow> ('v, 'e) StateManager \<times> ('v, 'e) effects
     \<Rightarrow> 'e completion \<times> ('v, 'e) StateManager \<times> ('v, 'e) effects" where
  "console_error e w =
     (Normal, fst w, (snd w)\<lparr>console_errors := console_errors (snd w) @ [e]\<rparr>)"

text \<open>\<open>try { body } catch (error) { handler(error) }\<close>\<close>

definition try_catch ::
  "('w \<Rightarrow> 'e completion \<times> 'w) \<Rightarrow> ('e \<Rightarrow> 'w \<Rightarrow> 'e completion \<times> 'w)
     \<Rightarrow> 'w \<Rightarrow> 'e completion \<times> 'w" where
  "try_catch body handler w =
     (case body w of
        (Normal, w') \<Rightarrow> (Normal, w')
      | (Throw e, w') \<Rightarrow> handler e w')"

text \<open>
  \<open>array.forEach(f)\<close>, as \<open>Array.prototype.forEach\<close> runs: the length is read once,
  then the indices below it are visited in order, each read from the array as it is at
  that moment; an index the array no longer has is passed over. \<open>array w\<close> is the array
  in the state \<open>w\<close>. A throw in \<open>f\<close> ends the iteration and propagates.
\<close>

function forEach_from ::
  "('w \<Rightarrow> 'a list) \<Rightarrow> ('a \<Rightarrow> 'w \<Rightarrow> 'e completion \<times> 'w) \<Rightarrow> nat \<Rightarrow> nat \<Rightarrow> 'w
     \<Rightarrow> 'e completion \<times> 'w" where
  "forEach_from array f k len w =
     (if k < len then
        (if k < length (array w) then
           (case f (array w ! k) w of
              (Normal, w') \<Rightarrow> forEach_from array f (Suc k) len w'
            | (Throw e, w') \<Rightarrow> (Throw e, w'))
         else forEach_from array f (Suc k) len w)
      else (Normal, w))"
  by pat_completeness auto
termination
  by (relation "measure (\<lambda>(array, f, k, len, w). len - k)") auto

declare forEach_from.simps [simp del]

definition forEach ::
  "('w \<Rightarrow> 'a list) \<Rightarrow> ('a \<Rightarrow> 'w \<Rightarrow> 'e completion \<times> 'w) \<Rightarrow> 'w \<Rightarrow> 'e completion \<times> 'w" where
  "forEach array f w = forEach_from array f 0 (length (array w)) w"

definition notifySubscribers ::
  "'v js_object \<Rightarrow> 'v js_object \<Rightarrow> ('v, 'e) StateManager \<times> ('v, 'e) effects
     \<Rightarrow> 'e completion \<times> ('v, 'e) StateManager \<times> ('v, 'e) effects" where
  "notifySubscribers newState oldState w =
     forEach (\<lambda>w. subscribers (fst w))
       (\<lambda>callback. try_catch (call_callback callback newState oldState) console_error) w"

definition setState ::
  "('v, 'e) StateManager \<Rightarrow> 'v js_object \<Rightarrow> ('v, 'e) effects
     \<Rightarrow> 'e completion \<times> ('v, 'e) StateManager \<times> ('v, 'e) effects" where
  "setState sm newState fx =
     (let oldState = state sm;
          sm' = sm\<lparr>state := state sm ++ newState\<rparr>
      in notifySubscribers (state sm') oldState (sm', fx))"

section \<open>Shape renderers (graphics/FactoryRenderer.js, graphics/PolygonRenderer.js)\<close>

text \<open>
  Of a \<open>PIXI.Graphics\<close> object the model keeps the transform (pivot, position, scale,
  rotation) and the outline drawn with \<open>moveTo\<close>/\<open>lineTo\<close>. Colours, strokes, the
  decorative rectangles, the child units and the interaction flags do not enter the
  transform and are left to the rendering library.
\<close>

record graphics =
  g_pivot :: point
  g_x :: real
  g_y :: real
  g_scale_x :: real
  g_scale_y :: real
  g_rotation :: real
  g_outline :: "point list"

text \<open>\<open>new PIXI.Graphics()\<close>\<close>

definition new_Graphics :: graphics where
  "new_Graphics =
     \<lparr>g_pivot = \<lparr>px = 0, py = 0\<rparr>, g_x = 0, g_y = 0, g_scale_x = 1, g_scale_y = 1,
      g_rotation = 0, g_outline = []\<rparr>"

text \<open>\<open>app.screen\<close>\<close>

record screen =
  screen_width :: real
  screen_height :: real

text \<open>What \<open>scaleAndCenter\<close> returns: \<open>{ scale, x, y }\<close>.\<close>

record placement =
  pl_scale :: real
  pl_x :: real
  pl_y :: real

text \<open>\<open>drawFactory\<close> and \<open>drawPolygon\<close>: with fewer than 3 points an error is logged
  and nothing is drawn.\<close>

definition drawFactory :: "graphics \<Rightarrow> point list \<Rightarrow> graphics" where
  "drawFactory g points = (if length points < 3 then g else g\<lparr>g_outline := points\<rparr>)"

definition drawPolygon :: "graphics \<Rightarrow> point list \<Rightarrow> graphics" where
  "drawPolygon g points = (if length points < 3 then g else g\<lparr>g_outline := points\<rparr>)"

text \<open>
  \<open>scaleAndCenter(graphic, containerRatio)\<close>. The bounding box comes from the rendering
  library (\<open>graphic.getBounds()\<close>), a parameter here. The graphic and the application
  exist, so the guard \<open>if (!graphic || !this.app) return\<close> does not fire. The result is
  the graphic as mutated, with the object returned.
\<close>

definition scaleAndCenter ::
  "screen \<Rightarrow> (graphics \<Rightarrow> bounds) \<Rightarrow> graphics \<Rightarrow> real \<Rightarrow> graphics \<times> placement" where
  "scaleAndCenter scr getBounds graphic containerRatio =
     (let containerWidth = screen_width scr;
          containerHeight = screen_height scr;
          bounds = getBounds graphic;
          graphicWidth = bounds_width bounds;
          graphicHeight = bounds_height bounds;
          targetWidth = containerWidth * containerRatio;
          targetHeight = containerHeight * containerRatio;
          scaleX = targetWidth / graphicWidth;
          scaleY = targetHeight / graphicHeight;
          scale = min scaleX scaleY;
          graphic' = graphic\<lparr>g_scale_x := scale, g_scale_y := scale,
                             g_x := containerWidth / 2, g_y := containerHeight / 2\<rparr>
      in (graphic', \<lparr>pl_scale = scale, pl_x = g_x graphic', pl_y = g_y graphic'\<rparr>))"

text \<open>\<open>FactoryRenderer.create(options)\<close>, with the options \<open>points\<close> and \<open>position\<close>
  (\<open>None\<close> when the caller leaves them out).\<close>

definition FactoryRenderer_create ::
  "screen \<Rightarrow> (graphics \<Rightarrow> bounds) \<Rightarrow> point list option \<Rightarrow> point option \<Rightarrow> error + graphics" where
  "FactoryRenderer_create scr getBounds points_opt position =
     (let points = (case points_opt of Some ps \<Rightarrow> ps | None \<Rightarrow> FACTORY_POINTS)
      in case calculateGeometricCenter points of
           Inl e \<Rightarrow> Inl e
         | Inr factoryCenter \<Rightarrow>
             let factory = new_Graphics;
                 factory = drawFactory factory points;
                 factory = factory\<lparr>g_pivot := factoryCenter\<rparr>;
                 factory = fst (scaleAndCenter scr getBounds factory CONTAINER_SCALE_RATIO)
             in Inr (case position of
                       Some p \<Rightarrow> factory\<lparr>g_x := px p, g_y := py p\<rparr>
                     | None \<Rightarrow> factory))"

text \<open>\<open>PolygonRenderer.create(points, options)\<close>, with the options \<open>scale\<close> and
  \<open>position\<close>.\<close>

definition PolygonRenderer_create ::
  "screen \<Rightarrow> point list option \<Rightarrow> real option \<Rightarrow> point option \<Rightarrow> error + graphics" where
  "PolygonRenderer_create scr points_opt scale_opt position =
     (let points = (case points_opt of Some ps \<Rightarrow> ps | None \<Rightarrow> DEFAULT_POLYGON_POINTS);
          scale = (case scale_opt of Some s \<Rightarrow> s | None \<Rightarrow> SCALE_FACTOR)
      in case calculatePolygonCenter points of
           Inl e \<Rightarrow> Inl e
         | Inr center \<Rightarrow>
             let graphics = new_Graphics;
                 graphics = drawPolygon graphics points;
                 graphics = graphics\<lparr>g_pivot := center\<rparr>;
                 graphics = (case position of
                               Some p \<Rightarrow> graphics\<lparr>g_x := px p, g_y := py p\<rparr>
                             | None \<Rightarrow> graphics\<lparr>g_x := screen_width scr / 2,
                                                g_y := screen_height scr / 2\<rparr>)
             in Inr (graphics\<lparr>g_scale_x := scale, g_scale_y := scale\<rparr>))"


section \<open>Notions and fixtures used to state the properties\<close>

text \<open>Two points agree up to \<open>tol\<close> in each coordinate.\<close>

definition approximately :: "real \<Rightarrow> point \<Rightarrow> point \<Rightarrow> bool" where
  "approximately tol p q \<longleftrightarrow> \<bar>px p - px q\<bar> \<le> tol \<and> \<bar>py p - py q\<bar> \<le> tol"

text \<open>Three points on the line \<open>y = x\<close>.\<close>

definition collinear3 :: "point list" where
  "collinear3 = [\<lparr>px = 0, py = 0\<rparr>, \<lparr>px = 1, py = 1\<rparr>, \<lparr>px = 2, py = 2\<rparr>]"

text \<open>A canvas of 800 by 600 pixels shown at its own size, the initial state of the
  controller, two wheel events at the middle of the canvas, and two content boxes: one
  of no width and no height, one of no width.\<close>

definition canvas0 :: canvas where
  "canvas0 = \<lparr>canvas_width = 800, canvas_height = 600, rect_left = 0, rect_top = 0,
               rect_width = 800, rect_height = 600\<rparr>"

definition state0 :: vc_state where
  "state0 = \<lparr>st_viewport = \<lparr>vp_x = 0, vp_y = 0, vp_scale = 1\<rparr>,
              st_stage = \<lparr>stage_x = 0, stage_y = 0, stage_scale = 1\<rparr>\<rparr>"

definition wheel_in0 :: wheel_event where
  "wheel_in0 = \<lparr>ev_clientX = 400, ev_clientY = 300, ev_deltaY = - 100\<rparr>"

definition wheel_out0 :: wheel_event where
  "wheel_out0 = \<lparr>ev_clientX = 400, ev_clientY = 300, ev_deltaY = 100\<rparr>"

definition bounds_empty :: bounds where
  "bounds_empty = \<lparr>bounds_x = 0, bounds_y = 0, bounds_width = 0, bounds_height = 0\<rparr>"

definition bounds_flat :: bounds where
  "bounds_flat = \<lparr>bounds_x = 0, bounds_y = 0, bounds_width = 0, bounds_height = 10\<rparr>"

text \<open>
  Callbacks: one that throws, one that only listens, and one that calls its own
  unsubscribe closure; two more listeners; a callback that performs no call into the
  state manager is an observer. Two state managers holding one field, built with
  \<open>subscribe\<close>.
\<close>

definition thrower :: "(nat, string) callback" where
  "thrower = Callback 1 (\<lambda>newState oldState. ([], Some ''boom''))"

definition listener :: "(nat, string) callback" where
  "listener = Callback 2 (\<lambda>newState oldState. ([], None))"

definition once :: "(nat, string) callback" where
  "once = Callback 1 (\<lambda>newState oldState. ([CallUnsubscribe 1], None))"

definition listener3 :: "(nat, string) callback" where
  "listener3 = Callback 3 (\<lambda>newState oldState. ([], None))"

definition observer :: "('v, 'e) callback \<Rightarrow> bool" where
  "observer cb \<longleftrightarrow> (\<forall>newState oldState. fst (cb_body cb newState oldState) = [])"

definition manager0 :: "(nat, string) StateManager" where
  "manager0 =
     fst (subscribe (fst (subscribe \<lparr>state = [''a'' \<mapsto> 0], subscribers = []\<rparr> thrower)) listener)"

definition manager1 :: "(nat, string) StateManager" where
  "manager1 =
     fst (subscribe
            (fst (subscribe
                    (fst (subscribe \<lparr>state = [''a'' \<mapsto> 0], subscribers = []\<rparr> once))
                    listener))
            listener3)"



section \<open>Properties of the geometry utilities\<close>

subsection \<open>The loops compute the sums\<close>

lemma shoelace_loop_sums:
  "i \<le> length points \<Longrightarrow>
   shoelace_loop points i (a, cx, cy) =
     (a + (\<Sum>k = i..<length points. spec_cross points k),
      cx + (\<Sum>k = i..<length points.
              (px (points ! k) + px (points ! ((k + 1) mod length points))) * spec_cross points k),
      cy + (\<Sum>k = i..<length points.
              (py (points ! k) + py (points ! ((k + 1) mod length points))) * spec_cross points k))"
proof (induction points i "(a, cx, cy)" arbitrary: a cx cy rule: shoelace_loop.induct)
  case (1 points i)
  show ?case
  proof (cases "i < length points")
    case True
    have step: "shoelace_body points i (a, cx, cy) =
      (a + spec_cross points i,
       cx + (px (points ! i) + px (points ! ((i + 1) mod length points))) * spec_cross points i,
       cy + (py (points ! i) + py (points ! ((i + 1) mod length points))) * spec_cross points i)"
      by (simp add: shoelace_body_def spec_cross_def Let_def)
    have "shoelace_loop points i (a, cx, cy) =
            shoelace_loop points (Suc i) (shoelace_body points i (a, cx, cy))"
      using True by (subst shoelace_loop.simps) simp
    also have "\<dots> = shoelace_loop points (Suc i)
      (a + spec_cross points i,
       cx + (px (points ! i) + px (points ! ((i + 1) mod length points))) * spec_cross points i,
       cy + (py (points ! i) + py (points ! ((i + 1) mod length points))) * spec_cross points i)"
      by (simp only: step)
    also have "\<dots> = (a + spec_cross points i + (\<Sum>k = Suc i..<length points. spec_cross points k),
      cx + (px (points ! i) + px (points ! ((i + 1) mod length points))) * spec_cross points i
        + (\<Sum>k = Suc i..<length points.
              (px (points ! k) + px (points ! ((k + 1) mod length points))) * spec_cross points k),
      cy + (py (points ! i) + py (points ! ((i + 1) mod length points))) * spec_cross points i
        + (\<Sum>k = Suc i..<length points.
              (py (points ! k) + py (points ! ((k + 1) mod length points))) * spec_cross points k))"
      using True by (intro "1.hyps") (simp_all add: step)
    finally show ?thesis
      using True by (simp add: sum.atLeast_Suc_lessThan add.assoc)
  next
    case False
    with "1.prems" have "i = length points" by simp
    then show ?thesis by (subst shoelace_loop.simps) simp
  qed
qed

lemma shoelace_loop_spec:
  "shoelace_loop points 0 (0, 0, 0) =
     (2 * spec_signed_area points, spec_moment_x points, spec_moment_y points)"
  by (simp add: shoelace_loop_sums spec_signed_area_def spec_moment_x_def spec_moment_y_def)

lemma sum_loop_foldl:
  "sum_loop points i (sx, sy) =
     (foldl (\<lambda>sum p. sum + px p) sx (drop i points),
      foldl (\<lambda>sum p. sum + py p) sy (drop i points))"
proof (induction points i "(sx, sy)" arbitrary: sx sy rule: sum_loop.induct)
  case (1 points i)
  show ?case
  proof (cases "i < length points")
    case True
    then have d: "drop i points = points ! i # drop (Suc i) points"
      by (simp add: Cons_nth_drop_Suc)
    have "sum_loop points i (sx, sy) =
            sum_loop points (Suc i) (sx + px (points ! i), sy + py (points ! i))"
      using True by (subst sum_loop.simps) simp
    also have "\<dots> = (foldl (\<lambda>sum p. sum + px p) (sx + px (points ! i)) (drop (Suc i) points),
                      foldl (\<lambda>sum p. sum + py p) (sy + py (points ! i)) (drop (Suc i) points))"
      using "1.hyps" [OF True] by simp
    finally show ?thesis by (simp add: d)
  next
    case False
    then show ?thesis by (subst sum_loop.simps) simp
  qed
qed

lemma sum_loop_reduce: "sum_loop points 0 (0, 0) = (reduce_x points, reduce_y points)"
  by (simp add: sum_loop_foldl reduce_x_def reduce_y_def)

lemma calculateGeometricCenter_eq:
  "calculateGeometricCenter points =
     (if points = [] then Inl VertexArrayEmpty
      else Inr \<lparr>px = reduce_x points / real (length points),
                py = reduce_y points / real (length points)\<rparr>)"
  by (simp add: calculateGeometricCenter_def sum_loop_reduce)

lemma calculatePolygonCenter_eq:
  "calculatePolygonCenter points =
     (if length points < 3 then Inl PolygonNeedsThreeVertices
      else if \<bar>spec_signed_area points\<bar> < 1 / 10 ^ 10
      then Inr \<lparr>px = reduce_x points / real (length points),
                py = reduce_y points / real (length points)\<rparr>
      else Inr \<lparr>px = spec_moment_x points / (6 * spec_signed_area points),
                py = spec_moment_y points / (6 * spec_signed_area points)\<rparr>)"
proof -
  have h: "(2 * spec_signed_area points) / 2 = spec_signed_area points"
    by simp
  show ?thesis
    unfolding calculatePolygonCenter_def shoelace_loop_spec prod.case Let_def h
    by (rule refl)
qed

subsection \<open>The default hexagon and a collinear triple\<close>

lemma hexagon_loop:
  "shoelace_loop DEFAULT_POLYGON_POINTS 0 (0, 0, 0) = (8600, 1264000, 1239000)"
  by (simp add: DEFAULT_POLYGON_POINTS_def shoelace_loop.simps shoelace_body_def)

lemma hexagon_sums:
  "spec_signed_area DEFAULT_POLYGON_POINTS = 4300"
  "spec_moment_x DEFAULT_POLYGON_POINTS = 1264000"
  "spec_moment_y DEFAULT_POLYGON_POINTS = 1239000"
  using hexagon_loop unfolding shoelace_loop_spec by simp_all

lemma hexagon_center:
  "calculatePolygonCenter DEFAULT_POLYGON_POINTS = Inr \<lparr>px = 6320 / 129, py = 6195 / 129\<rparr>"
proof -
  have "length DEFAULT_POLYGON_POINTS = 6"
    by (simp add: DEFAULT_POLYGON_POINTS_def)
  then show ?thesis
    by (simp add: calculatePolygonCenter_eq hexagon_sums)
qed

lemma collinear3_area: "spec_signed_area collinear3 = 0"
proof -
  have "shoelace_loop collinear3 0 (0, 0, 0) = (0, 0, 0)"
    by (simp add: collinear3_def shoelace_loop.simps shoelace_body_def)
  then show ?thesis unfolding shoelace_loop_spec by simp
qed

subsection \<open>Claims\<close>

text \<open>
  C3. Centroid fixture. The specification gives approximately \<open>(47.8, 47.0)\<close> for the
  centroid of the default hexagon \<open>[(50,10),(90,30),(80,70),(40,90),(10,60),(20,20)]\<close>.
  The shoelace sums of the hexagon are \<open>8600\<close> (twice the area) and the moments
  \<open>1264000\<close> and \<open>1239000\<close>. As amended: on the default hexagon
  \<open>calculatePolygonCenter\<close> returns \<open>(6320/129, 6195/129)\<close>, which is \<open>(48.99, 48.02)\<close>
  up to \<open>0.01\<close> in each coordinate.
\<close>

theorem centroid_fixture:
  "calculatePolygonCenter DEFAULT_POLYGON_POINTS = Inr \<lparr>px = 6320 / 129, py = 6195 / 129\<rparr>
   \<and> approximately (1 / 100) \<lparr>px = 6320 / 129, py = 6195 / 129\<rparr> \<lparr>px = 4899 / 100, py = 4802 / 100\<rparr>"
  by (simp add: hexagon_center approximately_def)

text \<open>The value returned is further than \<open>1\<close> from \<open>(47.8, 47.0)\<close> in each
  coordinate, so it is not approximately \<open>(47.8, 47.0)\<close>.\<close>

theorem centroid_fixture_counterexample:
  "calculatePolygonCenter DEFAULT_POLYGON_POINTS = Inr \<lparr>px = 6320 / 129, py = 6195 / 129\<rparr>
   \<and> \<not> approximately 1 \<lparr>px = 6320 / 129, py = 6195 / 129\<rparr> \<lparr>px = 478 / 10, py = 47\<rparr>"
  by (simp add: hexagon_center approximately_def)

text \<open>
  C4. Collinear fallback: for every list of at least 3 points, when the absolute value
  of the signed shoelace area is below \<open>1e-10\<close> the result of \<open>calculatePolygonCenter\<close>
  is the result of \<open>calculateGeometricCenter\<close> on the same list; otherwise it is the
  pair of shoelace moments divided by 6 times the signed area.
\<close>

theorem collinear_fallback:
  assumes "3 \<le> length points"
  shows "(\<bar>spec_signed_area points\<bar> < 1 / 10 ^ 10 \<longrightarrow>
            calculatePolygonCenter points = calculateGeometricCenter points)
       \<and> (\<not> \<bar>spec_signed_area points\<bar> < 1 / 10 ^ 10 \<longrightarrow>
            calculatePolygonCenter points =
              Inr \<lparr>px = spec_moment_x points / (6 * spec_signed_area points),
                    py = spec_moment_y points / (6 * spec_signed_area points)\<rparr>)"
proof -
  from assms have ne: "points \<noteq> []" and n3: "\<not> length points < 3"
    by auto
  show ?thesis
    using ne n3 by (simp add: calculatePolygonCenter_eq calculateGeometricCenter_eq)
qed

theorem collinear_fallback_witness:
  "3 \<le> length collinear3
   \<and> \<bar>spec_signed_area collinear3\<bar> < 1 / 10 ^ 10
   \<and> calculatePolygonCenter collinear3 = calculateGeometricCenter collinear3
   \<and> calculateGeometricCenter collinear3 = Inr \<lparr>px = 1, py = 1\<rparr>
   \<and> 3 \<le> length DEFAULT_POLYGON_POINTS
   \<and> \<not> \<bar>spec_signed_area DEFAULT_POLYGON_POINTS\<bar> < 1 / 10 ^ 10
   \<and> calculatePolygonCenter DEFAULT_POLYGON_POINTS =
       Inr \<lparr>px = spec_moment_x DEFAULT_POLYGON_POINTS / (6 * spec_signed_area DEFAULT_POLYGON_POINTS),
             py = spec_moment_y DEFAULT_POLYGON_POINTS / (6 * spec_signed_area DEFAULT_POLYGON_POINTS)\<rparr>"
proof -
  have l1: "3 \<le> length collinear3"
    by (simp add: collinear3_def)
  have l2: "3 \<le> length DEFAULT_POLYGON_POINTS"
    by (simp add: DEFAULT_POLYGON_POINTS_def)
  have a1: "\<bar>spec_signed_area collinear3\<bar> < 1 / 10 ^ 10"
    by (simp add: collinear3_area)
  have a2: "\<not> \<bar>spec_signed_area DEFAULT_POLYGON_POINTS\<bar> < 1 / 10 ^ 10"
    by (simp add: hexagon_sums)
  have g: "calculateGeometricCenter collinear3 = Inr \<lparr>px = 1, py = 1\<rparr>"
    by (simp add: calculateGeometricCenter_def collinear3_def sum_loop.simps)
  from collinear_fallback [OF l1] a1
  have c1: "calculatePolygonCenter collinear3 = calculateGeometricCenter collinear3"
    by blast
  from collinear_fallback [OF l2] a2
  have c2: "calculatePolygonCenter DEFAULT_POLYGON_POINTS =
       Inr \<lparr>px = spec_moment_x DEFAULT_POLYGON_POINTS / (6 * spec_signed_area DEFAULT_POLYGON_POINTS),
             py = spec_moment_y DEFAULT_POLYGON_POINTS / (6 * spec_signed_area DEFAULT_POLYGON_POINTS)\<rparr>"
    by blast
  from l1 l2 a1 a2 g c1 c2 show ?thesis by blast
qed

text \<open>
  C5. Degenerate inputs: \<open>calculatePolygonCenter\<close> throws exactly when the list has fewer
  than 3 points and returns a point otherwise; \<open>calculateGeometricCenter\<close> throws exactly
  when the list is empty and returns a point otherwise.
\<close>

theorem degenerate_input_errors:
  "((\<exists>e. calculatePolygonCenter points = Inl e) \<longleftrightarrow> length points < 3)
   \<and> ((\<exists>p. calculatePolygonCenter points = Inr p) \<longleftrightarrow> 3 \<le> length points)
   \<and> ((\<exists>e. calculateGeometricCenter points = Inl e) \<longleftrightarrow> points = [])
   \<and> ((\<exists>p. calculateGeometricCenter points = Inr p) \<longleftrightarrow> points \<noteq> [])"
  by (auto simp add: calculatePolygonCenter_eq calculateGeometricCenter_eq)

theorem degenerate_input_errors_witness:
  "(\<exists>e. calculatePolygonCenter [\<lparr>px = 0, py = 0\<rparr>, \<lparr>px = 1, py = 0\<rparr>] = Inl e)
   \<and> (\<exists>p. calculatePolygonCenter DEFAULT_POLYGON_POINTS = Inr p)
   \<and> (\<exists>e. calculateGeometricCenter [] = Inl e)
   \<and> (\<exists>p. calculateGeometricCenter [\<lparr>px = 0, py = 0\<rparr>, \<lparr>px = 1, py = 0\<rparr>] = Inr p)"
  using degenerate_input_errors [of "[\<lparr>px = 0, py = 0\<rparr>, \<lparr>px = 1, py = 0\<rparr>]"]
        degenerate_input_errors [of DEFAULT_POLYGON_POINTS]
        degenerate_input_errors [of "[]"]
  by (simp add: DEFAULT_POLYGON_POINTS_def)


section \<open>Properties of the viewport controller\<close>

subsection \<open>The viewport after each operation\<close>

lemma viewport_after_patch:
  "st_viewport (updateViewport (StateManager_updateViewport patch st)) =
     \<lparr>vp_x = (case patch_x patch of Some v \<Rightarrow> v | None \<Rightarrow> vp_x (st_viewport st)),
      vp_y = (case patch_y patch of Some v \<Rightarrow> v | None \<Rightarrow> vp_y (st_viewport st)),
      vp_scale = (case patch_scale patch of Some v \<Rightarrow> v | None \<Rightarrow> vp_scale (st_viewport st))\<rparr>"
  by (simp add: updateViewport_def StateManager_updateViewport_def)

lemma stage_after_patch:
  "st_stage (updateViewport (StateManager_updateViewport patch st)) =
     \<lparr>stage_x = (case patch_x patch of Some v \<Rightarrow> v | None \<Rightarrow> vp_x (st_viewport st)),
      stage_y = (case patch_y patch of Some v \<Rightarrow> v | None \<Rightarrow> vp_y (st_viewport st)),
      stage_scale = (case patch_scale patch of Some v \<Rightarrow> v | None \<Rightarrow> vp_scale (st_viewport st))\<rparr>"
  by (simp add: updateViewport_def StateManager_updateViewport_def)

lemma clamp_in_range:
  "MIN_SCALE \<le> max MIN_SCALE (min MAX_SCALE s) \<and> max MIN_SCALE (min MAX_SCALE s) \<le> MAX_SCALE"
  by (simp add: MIN_SCALE_def MAX_SCALE_def)

lemma clamp_pos: "0 < max MIN_SCALE (min MAX_SCALE s)"
  by (simp add: MIN_SCALE_def MAX_SCALE_def)

lemma zoomTo_viewport:
  "st_viewport (zoomTo cv scale center st) =
     (let ns = max MIN_SCALE (min MAX_SCALE scale);
          cx = (case center of Some c \<Rightarrow> px c | None \<Rightarrow> canvas_width cv / 2);
          cy = (case center of Some c \<Rightarrow> py c | None \<Rightarrow> canvas_height cv / 2)
      in \<lparr>vp_x = cx - (cx - vp_x (st_viewport st)) / vp_scale (st_viewport st) * ns,
          vp_y = cy - (cy - vp_y (st_viewport st)) / vp_scale (st_viewport st) * ns,
          vp_scale = ns\<rparr>)"
  by (simp add: zoomTo_def Let_def viewport_after_patch)

lemma handleWheel_viewport:
  "st_viewport (handleWheel cv ev st) =
     (let f = (if ev_deltaY ev > 0 then WHEEL_ZOOM_OUT_FACTOR else WHEEL_ZOOM_IN_FACTOR);
          ns = max MIN_SCALE (min MAX_SCALE (vp_scale (st_viewport st) * f));
          cx = px (wheel_mouse cv ev);
          cy = py (wheel_mouse cv ev)
      in if ns = vp_scale (st_viewport st) then st_viewport st
         else \<lparr>vp_x = cx - (cx - vp_x (st_viewport st)) / vp_scale (st_viewport st) * ns,
               vp_y = cy - (cy - vp_y (st_viewport st)) / vp_scale (st_viewport st) * ns,
               vp_scale = ns\<rparr>)"
  by (simp add: handleWheel_def Let_def viewport_after_patch)

lemma zoomIn_viewport:
  "st_viewport (zoomIn cv st) =
     (let ns = min MAX_SCALE (vp_scale (st_viewport st) * ZOOM_IN_FACTOR);
          cx = canvas_width cv / 2;
          cy = canvas_height cv / 2
      in if ns = vp_scale (st_viewport st) then st_viewport st
         else \<lparr>vp_x = cx - (cx - vp_x (st_viewport st)) / vp_scale (st_viewport st) * ns,
               vp_y = cy - (cy - vp_y (st_viewport st)) / vp_scale (st_viewport st) * ns,
               vp_scale = ns\<rparr>)"
  by (simp add: zoomIn_def Let_def viewport_after_patch)

lemma zoomOut_viewport:
  "st_viewport (zoomOut cv st) =
     (let ns = max MIN_SCALE (vp_scale (st_viewport st) * ZOOM_OUT_FACTOR);
          cx = canvas_width cv / 2;
          cy = canvas_height cv / 2
      in if ns = vp_scale (st_viewport st) then st_viewport st
         else \<lparr>vp_x = cx - (cx - vp_x (st_viewport st)) / vp_scale (st_viewport st) * ns,
               vp_y = cy - (cy - vp_y (st_viewport st)) / vp_scale (st_viewport st) * ns,
               vp_scale = ns\<rparr>)"
  by (simp add: zoomOut_def Let_def viewport_after_patch)

lemma scale_in_range_pos: "scale_in_range st \<Longrightarrow> 0 < vp_scale (st_viewport st)"
  by (simp add: scale_in_range_def MIN_SCALE_def)

lemma zoomIn_scale:
  "vp_scale (st_viewport (zoomIn cv st)) = min MAX_SCALE (vp_scale (st_viewport st) * ZOOM_IN_FACTOR)"
  by (simp add: zoomIn_viewport Let_def)

lemma zoomOut_scale:
  "vp_scale (st_viewport (zoomOut cv st)) = max MIN_SCALE (vp_scale (st_viewport st) * ZOOM_OUT_FACTOR)"
  by (simp add: zoomOut_viewport Let_def)

lemma handleWheel_scale:
  "vp_scale (st_viewport (handleWheel cv ev st)) =
     max MIN_SCALE (min MAX_SCALE (vp_scale (st_viewport st) *
       (if ev_deltaY ev > 0 then WHEEL_ZOOM_OUT_FACTOR else WHEEL_ZOOM_IN_FACTOR)))"
  by (simp add: handleWheel_viewport Let_def)

subsection \<open>The scale after each operation\<close>

text \<open>From a state whose scale is in range, every operation on finite numbers other than
  \<open>fitToContent\<close> leaves the scale in range, and so does any number of \<open>zoomIn\<close> or
  \<open>zoomOut\<close> calls.\<close>

lemma handleWheel_in_range: "scale_in_range st \<Longrightarrow> scale_in_range (handleWheel cv ev st)"
  using clamp_in_range by (simp add: scale_in_range_def handleWheel_viewport Let_def)

lemma zoomIn_in_range:
  assumes "scale_in_range st"
  shows "scale_in_range (zoomIn cv st)"
proof -
  from assms have "MIN_SCALE \<le> vp_scale (st_viewport st) * ZOOM_IN_FACTOR"
    by (simp add: scale_in_range_def ZOOM_IN_FACTOR_def MIN_SCALE_def)
  moreover have "MIN_SCALE \<le> MAX_SCALE"
    by (simp add: MIN_SCALE_def MAX_SCALE_def)
  ultimately show ?thesis
    using assms by (simp add: scale_in_range_def zoomIn_viewport Let_def)
qed

lemma zoomOut_in_range:
  assumes "scale_in_range st"
  shows "scale_in_range (zoomOut cv st)"
proof -
  from assms have "vp_scale (st_viewport st) * ZOOM_OUT_FACTOR \<le> MAX_SCALE"
    by (simp add: scale_in_range_def ZOOM_OUT_FACTOR_def MIN_SCALE_def MAX_SCALE_def)
  moreover have "MIN_SCALE \<le> MAX_SCALE"
    by (simp add: MIN_SCALE_def MAX_SCALE_def)
  ultimately show ?thesis
    using assms by (simp add: scale_in_range_def zoomOut_viewport Let_def)
qed

lemma zoomTo_in_range: "scale_in_range (zoomTo cv scale center st)"
  using clamp_in_range by (simp add: scale_in_range_def zoomTo_viewport Let_def)

lemma pan_in_range: "scale_in_range st \<Longrightarrow> scale_in_range (pan deltaX deltaY st)"
  by (simp add: scale_in_range_def pan_def Let_def viewport_after_patch)

lemma reset_in_range: "scale_in_range (reset st)"
  by (simp add: scale_in_range_def reset_def viewport_after_patch
      DEFAULT_SCALE_def MIN_SCALE_def MAX_SCALE_def)

lemma repeated_zoomIn_in_range:
  "scale_in_range st \<Longrightarrow> scale_in_range ((zoomIn cv ^^ n) st)"
  by (induction n) (simp_all add: zoomIn_in_range)

lemma repeated_zoomOut_in_range:
  "scale_in_range st \<Longrightarrow> scale_in_range ((zoomOut cv ^^ n) st)"
  by (induction n) (simp_all add: zoomOut_in_range)

text \<open>\<open>fitToContent\<close> leaves the scale in range except when one of its two divisions is
  zero by zero; then the scale it stores is \<open>NaN\<close>. With a content box of no width the
  division gives \<open>Infinity\<close>, which \<open>Math.min\<close> and the clamp absorb.\<close>

lemma js_clamp:
  "js_max (Num MIN_SCALE) (js_min (Num MAX_SCALE) s) = NaN
   \<or> js_scale_in_range (js_max (Num MIN_SCALE) (js_min (Num MAX_SCALE) s))"
  by (cases s) (simp_all add: MIN_SCALE_def MAX_SCALE_def)

lemma js_clamp_nan:
  "js_max (Num MIN_SCALE) (js_min (Num MAX_SCALE) s) = NaN \<longleftrightarrow> s = NaN"
  by (cases s) simp_all

lemma js_min_nan: "js_min a b = NaN \<longleftrightarrow> a = NaN \<or> b = NaN"
  by (cases a; cases b) simp_all

lemma js_div_nan: "js_div a b = NaN \<longleftrightarrow> a = 0 \<and> b = 0"
  by (simp add: js_div_def)

lemma store_viewport_outcome:
  "outcome_scale_in_range (store_viewport v st) \<longleftrightarrow> js_scale_in_range (jvp_scale v)"
  by (cases "jvp_x v"; cases "jvp_y v"; cases "jvp_scale v")
     (simp_all add: store_viewport_def scale_in_range_def viewport_after_patch)

lemma fitToContent_outcome:
  assumes "scale_in_range st"
  shows "outcome_scale_in_range (fitToContent cv bounds_opt padding st) \<longleftrightarrow>
           \<not> (\<exists>b. bounds_opt = Some b
                  \<and> (canvas_width cv * (1 - padding * 2) = 0 \<and> bounds_width b = 0
                     \<or> canvas_height cv * (1 - padding * 2) = 0 \<and> bounds_height b = 0))"
proof (cases bounds_opt)
  case None
  with assms show ?thesis by (simp add: fitToContent_def)
next
  case (Some b)
  let ?s = "js_min (js_div (canvas_width cv * (1 - padding * 2)) (bounds_width b))
                   (js_div (canvas_height cv * (1 - padding * 2)) (bounds_height b))"
  have "outcome_scale_in_range (fitToContent cv bounds_opt padding st) \<longleftrightarrow>
          js_scale_in_range (js_max (Num MIN_SCALE) (js_min (Num MAX_SCALE) ?s))"
    by (simp add: Some fitToContent_def Let_def store_viewport_outcome)
  also have "\<dots> \<longleftrightarrow> ?s \<noteq> NaN"
    using js_clamp [of ?s] js_clamp_nan [of ?s] by auto
  also have "\<dots> \<longleftrightarrow> \<not> (canvas_width cv * (1 - padding * 2) = 0 \<and> bounds_width b = 0
                     \<or> canvas_height cv * (1 - padding * 2) = 0 \<and> bounds_height b = 0)"
    by (simp only: js_min_nan js_div_nan)
  finally show ?thesis by (simp add: Some)
qed

lemma fitToContent_flat:
  "fitToContent canvas0 (Some bounds_flat) (1 / 10) state0 =
     Stored \<lparr>st_viewport = \<lparr>vp_x = 400, vp_y = 60, vp_scale = 5\<rparr>,
             st_stage = \<lparr>stage_x = 400, stage_y = 60, stage_scale = 5\<rparr>\<rparr>"
  by (simp add: fitToContent_def Let_def store_viewport_def js_div_def canvas0_def
      bounds_flat_def state0_def updateViewport_def StateManager_updateViewport_def
      MIN_SCALE_def MAX_SCALE_def)

lemma state0_in_range: "scale_in_range state0"
  by (simp add: scale_in_range_def state0_def MIN_SCALE_def MAX_SCALE_def)

subsection \<open>Claims\<close>

text \<open>
  C1. Zoom pivot invariance: from every state whose scale lies in
  \<open>[MIN_SCALE, MAX_SCALE]\<close>, after \<open>zoomTo\<close> with any target scale and centre \<open>p\<close> the
  screen point \<open>p\<close> maps to the world coordinate it mapped to before, and after a wheel
  zoom the pointer position maps to the world coordinate it mapped to before.
\<close>

theorem zoom_pivot_invariance:
  assumes "scale_in_range st"
  shows "screen_to_world (st_viewport (zoomTo cv scale (Some p) st)) p
           = screen_to_world (st_viewport st) p
       \<and> (finite_op cv (Wheel ev) \<longrightarrow>
            screen_to_world (st_viewport (handleWheel cv ev st)) (wheel_mouse cv ev)
              = screen_to_world (st_viewport st) (wheel_mouse cv ev))"
proof -
  from assms have s: "vp_scale (st_viewport st) \<noteq> 0"
    using scale_in_range_pos by fastforce
  have ns: "max MIN_SCALE (min MAX_SCALE t) \<noteq> 0" for t
    using clamp_pos [of t] by simp
  have z: "screen_to_world (st_viewport (zoomTo cv scale (Some p) st)) p
           = screen_to_world (st_viewport st) p"
    using s ns [of scale] by (simp add: screen_to_world_def zoomTo_viewport Let_def field_simps)
  have w: "screen_to_world (st_viewport (handleWheel cv ev st)) (wheel_mouse cv ev)
              = screen_to_world (st_viewport st) (wheel_mouse cv ev)"
    using s ns by (simp add: screen_to_world_def handleWheel_viewport Let_def field_simps)
  from z w show ?thesis by blast
qed

theorem zoom_pivot_invariance_witness:
  "scale_in_range state0
   \<and> finite_op canvas0 (Wheel wheel_in0)
   \<and> st_viewport (zoomTo canvas0 2 (Some \<lparr>px = 400, py = 300\<rparr>) state0)
       = \<lparr>vp_x = - 400, vp_y = - 300, vp_scale = 2\<rparr>
   \<and> screen_to_world (st_viewport (zoomTo canvas0 2 (Some \<lparr>px = 400, py = 300\<rparr>) state0))
         \<lparr>px = 400, py = 300\<rparr>
       = screen_to_world (st_viewport state0) \<lparr>px = 400, py = 300\<rparr>
   \<and> st_viewport (handleWheel canvas0 wheel_in0 state0)
       = \<lparr>vp_x = - 40, vp_y = - 30, vp_scale = 11 / 10\<rparr>
   \<and> screen_to_world (st_viewport (handleWheel canvas0 wheel_in0 state0))
         (wheel_mouse canvas0 wheel_in0)
       = screen_to_world (st_viewport state0) (wheel_mouse canvas0 wheel_in0)"
proof -
  have f: "finite_op canvas0 (Wheel wheel_in0)"
    by (simp add: canvas0_def)
  have v1: "st_viewport (zoomTo canvas0 2 (Some \<lparr>px = 400, py = 300\<rparr>) state0)
       = \<lparr>vp_x = - 400, vp_y = - 300, vp_scale = 2\<rparr>"
    by (simp add: zoomTo_viewport state0_def MIN_SCALE_def MAX_SCALE_def)
  have v2: "st_viewport (handleWheel canvas0 wheel_in0 state0)
       = \<lparr>vp_x = - 40, vp_y = - 30, vp_scale = 11 / 10\<rparr>"
    by (simp add: handleWheel_viewport state0_def wheel_in0_def canvas0_def wheel_mouse_def
        MIN_SCALE_def MAX_SCALE_def WHEEL_ZOOM_IN_FACTOR_def)
  from zoom_pivot_invariance [OF state0_in_range, of canvas0 2 "\<lparr>px = 400, py = 300\<rparr>" wheel_in0]
    f state0_in_range v1 v2
  show ?thesis by blast
qed


text \<open>
  C2. Scale clamping: from a state whose scale lies in \<open>[MIN_SCALE, MAX_SCALE]\<close> every
  viewport operation is to leave the scale in that interval. \<open>fitToContent\<close> clamps the
  scale with \<open>Math.max\<close> and \<open>Math.min\<close>, which let \<open>NaN\<close> through: on a canvas of 800
  by 600, from scale 1, \<open>fitToContent({x: 0, y: 0, width: 0, height: 0}, 0.5)\<close> computes
  \<open>0 / 0\<close> and stores \<open>NaN\<close> as the scale (and as both offsets), so the scale is no
  longer in the interval.
\<close>

theorem fitToContent_stores_nan_scale:
  "scale_in_range state0
   \<and> fitToContent canvas0 (Some bounds_empty) (1 / 2) state0
       = StoredNonFinite \<lparr>jvp_x = NaN, jvp_y = NaN, jvp_scale = NaN\<rparr>
   \<and> outcome_scale_in_range (fitToContent canvas0 (Some bounds_empty) (1 / 2) state0) = False"
proof -
  have "fitToContent canvas0 (Some bounds_empty) (1 / 2) state0
       = StoredNonFinite \<lparr>jvp_x = NaN, jvp_y = NaN, jvp_scale = NaN\<rparr>"
    by (simp add: fitToContent_def Let_def store_viewport_def js_div_def canvas0_def
        bounds_empty_def)
  then show ?thesis
    using state0_in_range by simp
qed

text \<open>
  C8. Zoom round trip: from scale 1 and offset \<open>(0, 0)\<close>, zooming toward the pivot
  \<open>(400, 300)\<close> to \<open>1.2\<close> times the current scale and then toward the same pivot to
  \<open>1 / 1.2\<close> times the current scale returns the viewport (and the stage) to scale 1 and
  offset \<open>(0, 0)\<close>. Between the two the viewport is at scale \<open>1.2\<close>, offset \<open>(-80, -60)\<close>.
\<close>

theorem zoom_round_trip:
  "(let p = \<lparr>px = 400, py = 300\<rparr>;
        st0 = \<lparr>st_viewport = \<lparr>vp_x = 0, vp_y = 0, vp_scale = 1\<rparr>, st_stage = sg\<rparr>;
        st1 = zoomTo cv (vp_scale (st_viewport st0) * (12 / 10)) (Some p) st0;
        st2 = zoomTo cv (vp_scale (st_viewport st1) * (1 / (12 / 10))) (Some p) st1
    in st_viewport st1 = \<lparr>vp_x = - 80, vp_y = - 60, vp_scale = 12 / 10\<rparr>
       \<and> st_viewport st2 = \<lparr>vp_x = 0, vp_y = 0, vp_scale = 1\<rparr>
       \<and> st_stage st2 = \<lparr>stage_x = 0, stage_y = 0, stage_scale = 1\<rparr>)"
  by (simp add: Let_def zoomTo_def viewport_after_patch stage_after_patch MIN_SCALE_def MAX_SCALE_def)

text \<open>
  C10. The zoom step factors are not mutual inverses: the wheel factors multiply to
  \<open>0.99\<close> and the button factors to \<open>0.96\<close>. From a state whose scale lies in
  \<open>[MIN_SCALE, MAX_SCALE]\<close>, when neither step is clamped, a wheel zoom-in followed by a
  wheel zoom-out gives \<open>0.99\<close> times the original scale, and \<open>zoomIn\<close> followed by
  \<open>zoomOut\<close> gives \<open>0.96\<close> times the original scale; neither restores the scale.
\<close>

theorem zoom_steps_not_inverse:
  assumes "scale_in_range st"
  shows "WHEEL_ZOOM_IN_FACTOR * WHEEL_ZOOM_OUT_FACTOR = 99 / 100
       \<and> ZOOM_IN_FACTOR * ZOOM_OUT_FACTOR = 96 / 100
       \<and> (ev_deltaY ev_in \<le> 0 \<and> 0 < ev_deltaY ev_out
            \<and> vp_scale (st_viewport st) * WHEEL_ZOOM_IN_FACTOR \<le> MAX_SCALE
            \<and> MIN_SCALE \<le> vp_scale (st_viewport st) * WHEEL_ZOOM_IN_FACTOR * WHEEL_ZOOM_OUT_FACTOR
          \<longrightarrow> vp_scale (st_viewport (handleWheel cv ev_out (handleWheel cv ev_in st)))
                = 99 / 100 * vp_scale (st_viewport st)
              \<and> vp_scale (st_viewport (handleWheel cv ev_out (handleWheel cv ev_in st)))
                \<noteq> vp_scale (st_viewport st))
       \<and> (vp_scale (st_viewport st) * ZOOM_IN_FACTOR \<le> MAX_SCALE
            \<and> MIN_SCALE \<le> vp_scale (st_viewport st) * ZOOM_IN_FACTOR * ZOOM_OUT_FACTOR
          \<longrightarrow> vp_scale (st_viewport (zoomOut cv (zoomIn cv st)))
                = 96 / 100 * vp_scale (st_viewport st)
              \<and> vp_scale (st_viewport (zoomOut cv (zoomIn cv st)))
                \<noteq> vp_scale (st_viewport st))"
proof -
  from assms have pos: "0 < vp_scale (st_viewport st)"
    by (rule scale_in_range_pos)
  from assms have lo: "MIN_SCALE \<le> vp_scale (st_viewport st)"
    by (simp add: scale_in_range_def)
  have w: "vp_scale (st_viewport (handleWheel cv ev_out (handleWheel cv ev_in st)))
                = 99 / 100 * vp_scale (st_viewport st)
              \<and> vp_scale (st_viewport (handleWheel cv ev_out (handleWheel cv ev_in st)))
                \<noteq> vp_scale (st_viewport st)"
    if "ev_deltaY ev_in \<le> 0" "0 < ev_deltaY ev_out"
       "vp_scale (st_viewport st) * WHEEL_ZOOM_IN_FACTOR \<le> MAX_SCALE"
       "MIN_SCALE \<le> vp_scale (st_viewport st) * WHEEL_ZOOM_IN_FACTOR * WHEEL_ZOOM_OUT_FACTOR"
  proof -
    have "MIN_SCALE \<le> vp_scale (st_viewport st) * WHEEL_ZOOM_IN_FACTOR"
      using lo pos by (simp add: WHEEL_ZOOM_IN_FACTOR_def MIN_SCALE_def)
    with that have 1: "vp_scale (st_viewport (handleWheel cv ev_in st))
             = vp_scale (st_viewport st) * WHEEL_ZOOM_IN_FACTOR"
      by (simp add: handleWheel_scale)
    have "vp_scale (st_viewport st) * WHEEL_ZOOM_IN_FACTOR * WHEEL_ZOOM_OUT_FACTOR \<le> MAX_SCALE"
      using that(3) pos by (simp add: WHEEL_ZOOM_IN_FACTOR_def WHEEL_ZOOM_OUT_FACTOR_def)
    with that have 2: "vp_scale (st_viewport (handleWheel cv ev_out (handleWheel cv ev_in st)))
             = vp_scale (st_viewport st) * WHEEL_ZOOM_IN_FACTOR * WHEEL_ZOOM_OUT_FACTOR"
      by (simp add: handleWheel_scale [of cv ev_out] 1)
    show ?thesis
      using pos unfolding 2 by (simp add: WHEEL_ZOOM_IN_FACTOR_def WHEEL_ZOOM_OUT_FACTOR_def)
  qed
  have b: "vp_scale (st_viewport (zoomOut cv (zoomIn cv st)))
                = 96 / 100 * vp_scale (st_viewport st)
              \<and> vp_scale (st_viewport (zoomOut cv (zoomIn cv st)))
                \<noteq> vp_scale (st_viewport st)"
    if "vp_scale (st_viewport st) * ZOOM_IN_FACTOR \<le> MAX_SCALE"
       "MIN_SCALE \<le> vp_scale (st_viewport st) * ZOOM_IN_FACTOR * ZOOM_OUT_FACTOR"
  proof -
    from that have 2: "vp_scale (st_viewport (zoomOut cv (zoomIn cv st)))
             = vp_scale (st_viewport st) * ZOOM_IN_FACTOR * ZOOM_OUT_FACTOR"
      by (simp add: zoomOut_scale zoomIn_scale)
    show ?thesis
      using pos unfolding 2 by (simp add: ZOOM_IN_FACTOR_def ZOOM_OUT_FACTOR_def)
  qed
  have c: "WHEEL_ZOOM_IN_FACTOR * WHEEL_ZOOM_OUT_FACTOR = 99 / 100"
          "ZOOM_IN_FACTOR * ZOOM_OUT_FACTOR = 96 / 100"
    by (simp_all add: WHEEL_ZOOM_IN_FACTOR_def WHEEL_ZOOM_OUT_FACTOR_def
        ZOOM_IN_FACTOR_def ZOOM_OUT_FACTOR_def)
  from w b c show ?thesis by blast
qed

theorem zoom_steps_not_inverse_witness:
  "scale_in_range state0
   \<and> ev_deltaY wheel_in0 \<le> 0 \<and> 0 < ev_deltaY wheel_out0
   \<and> vp_scale (st_viewport state0) * WHEEL_ZOOM_IN_FACTOR \<le> MAX_SCALE
   \<and> MIN_SCALE \<le> vp_scale (st_viewport state0) * WHEEL_ZOOM_IN_FACTOR * WHEEL_ZOOM_OUT_FACTOR
   \<and> vp_scale (st_viewport (handleWheel canvas0 wheel_out0 (handleWheel canvas0 wheel_in0 state0)))
       = 99 / 100
   \<and> vp_scale (st_viewport state0) * ZOOM_IN_FACTOR \<le> MAX_SCALE
   \<and> MIN_SCALE \<le> vp_scale (st_viewport state0) * ZOOM_IN_FACTOR * ZOOM_OUT_FACTOR
   \<and> vp_scale (st_viewport (zoomOut canvas0 (zoomIn canvas0 state0))) = 96 / 100"
proof -
  have s: "vp_scale (st_viewport state0) = 1"
    by (simp add: state0_def)
  have h: "ev_deltaY wheel_in0 \<le> 0" "0 < ev_deltaY wheel_out0"
    "vp_scale (st_viewport state0) * WHEEL_ZOOM_IN_FACTOR \<le> MAX_SCALE"
    "MIN_SCALE \<le> vp_scale (st_viewport state0) * WHEEL_ZOOM_IN_FACTOR * WHEEL_ZOOM_OUT_FACTOR"
    "vp_scale (st_viewport state0) * ZOOM_IN_FACTOR \<le> MAX_SCALE"
    "MIN_SCALE \<le> vp_scale (st_viewport state0) * ZOOM_IN_FACTOR * ZOOM_OUT_FACTOR"
    by (simp_all add: s wheel_in0_def wheel_out0_def WHEEL_ZOOM_IN_FACTOR_def
        WHEEL_ZOOM_OUT_FACTOR_def ZOOM_IN_FACTOR_def ZOOM_OUT_FACTOR_def MIN_SCALE_def MAX_SCALE_def)
  from zoom_steps_not_inverse [OF state0_in_range, of wheel_in0 wheel_out0 canvas0] h
  have "vp_scale (st_viewport (handleWheel canvas0 wheel_out0 (handleWheel canvas0 wheel_in0 state0)))
          = 99 / 100 * vp_scale (st_viewport state0)"
    and "vp_scale (st_viewport (zoomOut canvas0 (zoomIn canvas0 state0)))
          = 96 / 100 * vp_scale (st_viewport state0)"
    by blast+
  with h state0_in_range show ?thesis
    by (simp add: s)
qed



section \<open>Properties of the state manager\<close>

text \<open>When every subscriber is an observer, \<open>setState\<close> merges the partial object, calls
  every subscriber once in registration order with the new and the old state, logs what
  a subscriber throws and completes normally.\<close>

lemma notify_observer:
  assumes "observer cb"
  shows "try_catch (call_callback cb newState oldState) console_error (sm, fx) =
     (Normal, sm,
      fx\<lparr>calls := calls fx @ [(cb_id cb, newState, oldState)],
         console_errors := console_errors fx @
           (case snd (cb_body cb newState oldState) of None \<Rightarrow> [] | Some e \<Rightarrow> [e])\<rparr>)"
proof -
  from assms have "fst (cb_body cb newState oldState) = []"
    by (simp add: observer_def)
  then show ?thesis
    by (simp add: try_catch_def call_callback_def console_error_def Let_def split: option.split)
qed

lemma forEach_from_observers:
  assumes "\<forall>cb \<in> set (subscribers sm). observer cb"
  shows "k \<le> length (subscribers sm) \<Longrightarrow>
     forEach_from (\<lambda>w. subscribers (fst w))
       (\<lambda>callback. try_catch (call_callback callback newState oldState) console_error)
       k (length (subscribers sm)) (sm, fx) =
     (Normal, sm,
      fx\<lparr>calls := calls fx @ map (\<lambda>cb. (cb_id cb, newState, oldState)) (drop k (subscribers sm)),
         console_errors := console_errors fx @
           List.map_filter (\<lambda>cb. snd (cb_body cb newState oldState)) (drop k (subscribers sm))\<rparr>)"
proof (induction "length (subscribers sm) - k" arbitrary: k fx)
  case 0
  then have "k = length (subscribers sm)" by simp
  then show ?case
    by (subst forEach_from.simps) simp
next
  case (Suc d)
  then have lt: "k < length (subscribers sm)" by simp
  let ?cb = "subscribers sm ! k"
  let ?fx = "fx\<lparr>calls := calls fx @ [(cb_id ?cb, newState, oldState)],
         console_errors := console_errors fx @
           (case snd (cb_body ?cb newState oldState) of None \<Rightarrow> [] | Some e \<Rightarrow> [e])\<rparr>"
  from lt assms have "observer ?cb" by simp
  then have call: "try_catch (call_callback ?cb newState oldState) console_error (sm, fx) =
     (Normal, sm, ?fx)"
    by (rule notify_observer)
  have d: "drop k (subscribers sm) = ?cb # drop (Suc k) (subscribers sm)"
    using lt by (simp add: Cons_nth_drop_Suc)
  from Suc have ih: "forEach_from (\<lambda>w. subscribers (fst w))
       (\<lambda>callback. try_catch (call_callback callback newState oldState) console_error)
       (Suc k) (length (subscribers sm)) (sm, ?fx) =
     (Normal, sm,
      ?fx\<lparr>calls := calls ?fx @ map (\<lambda>cb. (cb_id cb, newState, oldState)) (drop (Suc k) (subscribers sm)),
         console_errors := console_errors ?fx @
           List.map_filter (\<lambda>cb. snd (cb_body cb newState oldState)) (drop (Suc k) (subscribers sm))\<rparr>)"
    by simp
  show ?case
    apply (subst forEach_from.simps)
    using lt apply (simp only: if_True fst_conv call prod.case completion.case ih)
    apply (simp add: d split: option.split)
    done
qed

lemma setState_observers:
  assumes "\<forall>cb \<in> set (subscribers sm). observer cb"
  shows "setState sm newState fx =
     (Normal,
      sm\<lparr>state := state sm ++ newState\<rparr>,
      fx\<lparr>calls := calls fx @
           map (\<lambda>cb. (cb_id cb, state sm ++ newState, state sm)) (subscribers sm),
         console_errors := console_errors fx @
           List.map_filter (\<lambda>cb. snd (cb_body cb (state sm ++ newState) (state sm)))
             (subscribers sm)\<rparr>)"
proof -
  let ?sm = "sm\<lparr>state := state sm ++ newState\<rparr>"
  have s: "subscribers ?sm = subscribers sm" by simp
  from assms have a: "\<forall>cb \<in> set (subscribers ?sm). observer cb" by simp
  show ?thesis
    using forEach_from_observers [OF a, of 0 "state sm ++ newState" "state sm" fx]
    by (simp add: setState_def notifySubscribers_def forEach_def Let_def)
qed

lemma manager0_subscribers: "subscribers manager0 = [thrower, listener]"
  by (simp add: manager0_def subscribe_def)

lemma manager1_subscribers: "subscribers manager1 = [once, listener, listener3]"
  by (simp add: manager1_def subscribe_def)

lemma setState_after_throw:
  "setState manager0 [''a'' \<mapsto> 1] \<lparr>calls = [], console_errors = []\<rparr> =
     (Normal,
      manager0\<lparr>state := [''a'' \<mapsto> 1]\<rparr>,
      \<lparr>calls = [(1, [''a'' \<mapsto> 1], [''a'' \<mapsto> 0]), (2, [''a'' \<mapsto> 1], [''a'' \<mapsto> 0])],
       console_errors = [''boom'']\<rparr>)"
proof -
  have "\<forall>cb \<in> set (subscribers manager0). observer cb"
    by (simp add: manager0_subscribers observer_def thrower_def listener_def)
  from setState_observers [OF this, of "[''a'' \<mapsto> 1]" "\<lparr>calls = [], console_errors = []\<rparr>"]
  show ?thesis
    by (simp add: manager0_subscribers) (simp add: manager0_def subscribe_def thrower_def listener_def)
qed

text \<open>
  C6. Notification contract: \<open>setState\<close> is to call every registered subscriber exactly
  once. \<open>notifySubscribers\<close> iterates over the array that the unsubscribe closures
  splice: with the subscribers 1, 2, 3 registered in this order, where subscriber 1 calls
  its own unsubscribe closure when notified, \<open>setState({a: 1})\<close> calls subscribers 1 and
  3 and never calls subscriber 2, which is still registered afterwards.
\<close>

theorem setState_skips_subscriber:
  "subscribers manager1 = [once, listener, listener3]
   \<and> map cb_id (subscribers manager1) = [1, 2, 3]
   \<and> setState manager1 [''a'' \<mapsto> 1] \<lparr>calls = [], console_errors = []\<rparr> =
     (Normal,
      \<lparr>state = [''a'' \<mapsto> 1], subscribers = [listener, listener3]\<rparr>,
      \<lparr>calls = [(1, [''a'' \<mapsto> 1], [''a'' \<mapsto> 0]), (3, [''a'' \<mapsto> 1], [''a'' \<mapsto> 0])],
       console_errors = []\<rparr>)"
proof -
  have ids: "cb_id once = 1" "cb_id listener = 2" "cb_id listener3 = 3"
    by (simp_all add: once_def listener_def listener3_def)
  have bodies: "cb_body once ns os = ([CallUnsubscribe 1], None)"
    "cb_body listener ns os = ([], None)" "cb_body listener3 ns os = ([], None)" for ns os
    by (simp_all add: once_def listener_def listener3_def)
  have st: "state manager1 = [''a'' \<mapsto> 0]"
    by (simp add: manager1_def subscribe_def)
  have m: "manager1 = \<lparr>state = [''a'' \<mapsto> 0], subscribers = [once, listener, listener3]\<rparr>"
    by (simp add: manager1_def subscribe_def)
  have "setState manager1 [''a'' \<mapsto> 1] \<lparr>calls = [], console_errors = []\<rparr> =
     (Normal,
      \<lparr>state = [''a'' \<mapsto> 1], subscribers = [listener, listener3]\<rparr>,
      \<lparr>calls = [(1, [''a'' \<mapsto> 1], [''a'' \<mapsto> 0]), (3, [''a'' \<mapsto> 1], [''a'' \<mapsto> 0])],
       console_errors = []\<rparr>)"
    unfolding m
    by (simp add: setState_def notifySubscribers_def forEach_def Let_def forEach_from.simps
        try_catch_def call_callback_def console_error_def ids bodies unsubscribe_def splice1_def)
  then show ?thesis
    by (simp add: manager1_subscribers ids)
qed

section \<open>Properties of the shape renderers\<close>

lemma factory_center:
  "calculateGeometricCenter FACTORY_POINTS = Inr \<lparr>px = 1930 / 19, py = 1730 / 19\<rparr>"
  by (simp add: calculateGeometricCenter_def FACTORY_POINTS_def sum_loop.simps)

lemma factory_centroid:
  "calculatePolygonCenter FACTORY_POINTS = Inr \<lparr>px = 212330 / 2319, py = 213500 / 2319\<rparr>"
  by (simp add: calculatePolygonCenter_def FACTORY_POINTS_def shoelace_loop.simps shoelace_body_def)

lemma FactoryRenderer_create_pivot:
  "map_sum id g_pivot (FactoryRenderer_create scr getBounds points_opt position) =
     calculateGeometricCenter (case points_opt of Some ps \<Rightarrow> ps | None \<Rightarrow> FACTORY_POINTS)"
  by (simp add: FactoryRenderer_create_def scaleAndCenter_def Let_def
      split: sum.split option.split)

lemma PolygonRenderer_create_pivot:
  "map_sum id g_pivot (PolygonRenderer_create scr points_opt scale_opt position) =
     calculatePolygonCenter (case points_opt of Some ps \<Rightarrow> ps | None \<Rightarrow> DEFAULT_POLYGON_POINTS)"
  by (simp add: PolygonRenderer_create_def Let_def split: sum.split option.split)

text \<open>
  C7. Pivot asymmetry: the pivot of a factory shape is the vertex average
  (\<open>calculateGeometricCenter\<close>) of its vertex list, and the pivot of a polygon is the
  area-weighted centroid (\<open>calculatePolygonCenter\<close>) of its vertex list; when
  the centre function throws, so does the constructor. On the default vertex lists the
  two centres differ: the factory's pivot is \<open>(1930/19, 1730/19)\<close> and not its
  centroid \<open>(212330/2319, 213500/2319)\<close>; the polygon's pivot is
  \<open>(6320/129, 6195/129)\<close> and not its vertex average \<open>(145/3, 140/3)\<close>.
\<close>

theorem pivot_asymmetry:
  "map_sum id g_pivot (FactoryRenderer_create scr getBounds points_opt position) =
     calculateGeometricCenter (case points_opt of Some ps \<Rightarrow> ps | None \<Rightarrow> FACTORY_POINTS)
   \<and> map_sum id g_pivot (PolygonRenderer_create scr ppoints_opt scale_opt pposition) =
     calculatePolygonCenter (case ppoints_opt of Some ps \<Rightarrow> ps | None \<Rightarrow> DEFAULT_POLYGON_POINTS)
   \<and> map_sum id g_pivot (FactoryRenderer_create scr getBounds None position)
       = Inr \<lparr>px = 1930 / 19, py = 1730 / 19\<rparr>
   \<and> calculatePolygonCenter FACTORY_POINTS = Inr \<lparr>px = 212330 / 2319, py = 213500 / 2319\<rparr>
   \<and> map_sum id g_pivot (FactoryRenderer_create scr getBounds None position)
       \<noteq> calculatePolygonCenter FACTORY_POINTS
   \<and> map_sum id g_pivot (PolygonRenderer_create scr None scale_opt pposition)
       = Inr \<lparr>px = 6320 / 129, py = 6195 / 129\<rparr>
   \<and> calculateGeometricCenter DEFAULT_POLYGON_POINTS = Inr \<lparr>px = 145 / 3, py = 140 / 3\<rparr>
   \<and> map_sum id g_pivot (PolygonRenderer_create scr None scale_opt pposition)
       \<noteq> calculateGeometricCenter DEFAULT_POLYGON_POINTS"
proof -
  have g: "calculateGeometricCenter DEFAULT_POLYGON_POINTS = Inr \<lparr>px = 145 / 3, py = 140 / 3\<rparr>"
    by (simp add: calculateGeometricCenter_def DEFAULT_POLYGON_POINTS_def sum_loop.simps)
  show ?thesis
    unfolding FactoryRenderer_create_pivot PolygonRenderer_create_pivot
    by (simp add: factory_center factory_centroid hexagon_center g)
qed



end
